theory Spec2Isabelle
  imports Main "HOL-Library.Sublist"
begin

section \<open>Conditional requests: package conditional\<close>

text \<open>
  The package evaluates the HTTP precondition headers If-Match, If-None-Match,
  If-Modified-Since and If-Unmodified-Since against the current entity tag and
  modification time of a resource. Go strings are byte sequences and are modelled as
  \<open>string\<close> (a list of \<open>char\<close>).
\<close>

subsection \<open>Standard library: strings\<close>

text \<open>\<^verbatim>\<open>strings.HasPrefix(s, prefix)\<close>: \<open>s\<close> is at least as long as \<open>prefix\<close> and starts with it.\<close>

definition HasPrefix :: "string \<Rightarrow> string \<Rightarrow> bool" where
  "HasPrefix s pre = (length pre \<le> length s \<and> take (length pre) s = pre)"

text \<open>
  \<^verbatim>\<open>strings.Trim(s, cutset)\<close> for a cutset of one ASCII byte, the only way the package
  calls it: the standard library then removes that byte from the right end while it is
  the last byte, and from the left end while it is the first.
\<close>

definition trimRightByte :: "string \<Rightarrow> char \<Rightarrow> string" where
  "trimRightByte s c = rev (dropWhile (\<lambda>x. x = c) (rev s))"

definition trimLeftByte :: "string \<Rightarrow> char \<Rightarrow> string" where
  "trimLeftByte s c = dropWhile (\<lambda>x. x = c) s"

definition Trim :: "string \<Rightarrow> char \<Rightarrow> string" where
  "Trim s c = trimLeftByte (trimRightByte s c) c"

text \<open>The double quote character, byte 0x22.\<close>

definition dquote :: char where
  "dquote = CHR 0x22"

text \<open>
  An entity tag as it travels in a header is written between double quotes;
  \<open>quoted\<close> builds such inputs.
\<close>

definition quoted :: "string \<Rightarrow> string" where
  "quoted s = dquote # s @ [dquote]"

subsection \<open>Standard library: time and net/http\<close>

text \<open>
  \<^verbatim>\<open>time.Time\<close>: the instant it denotes, as the seconds since January 1 of year 1,
  00:00:00 UTC, and the nanoseconds within that second, together with the location
  whose wall clock \<^verbatim>\<open>Format\<close> prints (its name; the empty name stands for the nil
  location, which is UTC). Header values are parsed from text and carry no monotonic
  clock reading, so \<^verbatim>\<open>After\<close> compares instants. \<^verbatim>\<open>IsZero\<close> and \<^verbatim>\<open>After\<close>
  do not look at the location.
\<close>

record Time =
  sec :: int
  nsec :: int
  loc :: string

text \<open>The zero value \<^verbatim>\<open>time.Time{}\<close>, which a header that was not sent leaves in place.\<close>

definition zeroTime :: Time where
  "zeroTime = \<lparr>sec = 0, nsec = 0, loc = ''''\<rparr>"

definition IsZero :: "Time \<Rightarrow> bool" where
  "IsZero t = (sec t = 0 \<and> nsec t = 0)"

definition After :: "Time \<Rightarrow> Time \<Rightarrow> bool" where
  "After t u = (sec t > sec u \<or> sec t = sec u \<and> nsec t > nsec u)"

definition MethodPost :: string where "MethodPost = ''POST''"
definition MethodPut :: string where "MethodPut = ''PUT''"
definition MethodPatch :: string where "MethodPatch = ''PATCH''"
definition MethodDelete :: string where "MethodDelete = ''DELETE''"

definition StatusNotModified :: nat where "StatusNotModified = 304"
definition StatusPreconditionFailed :: nat where "StatusPreconditionFailed = 412"

text \<open>
  \<^verbatim>\<open>http.StatusText\<close>, on the two status codes the package writes. The rest of the
  table of the standard library is not reproduced: the model gives the empty string
  there, and nothing below evaluates it on another code.
\<close>

definition StatusText :: "nat \<Rightarrow> string" where
  "StatusText code =
     (if code = StatusNotModified then ''Not Modified''
      else if code = StatusPreconditionFailed then ''Precondition Failed''
      else [])"

subsection \<open>The request context\<close>

text \<open>
  \<^verbatim>\<open>huma.ErrorDetail\<close>. The field \<^verbatim>\<open>Value\<close> has type \<^verbatim>\<open>any\<close>; the package stores a
  string or a slice of strings there.
\<close>

datatype any = StringValue string | StringsValue "string list"

record ErrorDetail =
  Message :: string
  Location :: string
  Value :: any

text \<open>
  \<^verbatim>\<open>huma.Context\<close> is an interface of the imported package huma; the package calls three
  of its methods and reads nothing back from it. The model of a context is the sequence
  of calls made on it so far, oldest first: whatever an implementation does with the
  calls is a function of this sequence.
\<close>

datatype Call =
    AddError ErrorDetail
  | WriteError nat string
  | WriteHeader nat

type_synonym Context = "Call list"

subsection \<open>trimETag\<close>

text \<open>
  \<^verbatim>\<open>
  func trimETag(value string) string {
      if strings.HasPrefix(value, "W/") && len(value) > 2 {
          value = value[2:]
      }
      return strings.Trim(value, "\"")
  }
  \<close>
\<close>

definition trimETag :: "string \<Rightarrow> string" where
  "trimETag v =
     (let v' = (if HasPrefix v ''W/'' \<and> length v > 2 then drop 2 v else v)
      in Trim v' dquote)"

subsection \<open>Params\<close>

record Params =
  IfMatch :: "string list"
  IfNoneMatch :: "string list"
  IfModifiedSince :: Time
  IfUnmodifiedSince :: Time
  isWrite :: bool

text \<open>
  \<^verbatim>\<open>Resolve\<close> reads only the method of the request. A method outside the four cases
  of the switch leaves the parameters as they are.
\<close>

definition Resolve :: "string \<Rightarrow> Params \<Rightarrow> Params" where
  "Resolve method p =
     (if method = MethodPost \<or> method = MethodPut \<or> method = MethodPatch \<or> method = MethodDelete
      then p\<lparr>isWrite := True\<rparr>
      else p)"

definition HasConditionalParams :: "Params \<Rightarrow> bool" where
  "HasConditionalParams p =
     (length (IfMatch p) > 0 \<or> length (IfNoneMatch p) > 0 \<or>
      \<not> IsZero (IfModifiedSince p) \<or> \<not> IsZero (IfUnmodifiedSince p))"

subsection \<open>PreconditionFailed\<close>

text \<open>
  The method is modelled block by block, in the order of the source. Each block takes
  the context and the local variable \<^verbatim>\<open>failed\<close> and returns both. The parameter
  \<open>Format\<close> stands for \<^verbatim>\<open>t.Format(http.TimeFormat)\<close> of the standard library.
\<close>

definition foundMsg :: "string \<Rightarrow> string" where
  "foundMsg etag =
     (if etag \<noteq> '''' then ''found resource with ETag '' @ etag
      else ''found no existing resource'')"

text \<open>
  The loop over \<^verbatim>\<open>p.IfNoneMatch\<close>. It has no \<^verbatim>\<open>break\<close>: every listed value is
  visited, and every value that matches adds its own error on a write.
\<close>

fun ifNoneMatchLoop :: "Params \<Rightarrow> string \<Rightarrow> string list \<Rightarrow> Context \<times> bool \<Rightarrow> Context \<times> bool" where
  "ifNoneMatchLoop p etag [] (ctx, failed) = (ctx, failed)"
| "ifNoneMatchLoop p etag (match # rest) (ctx, failed) =
     (let trimmed = trimETag match in
      if trimmed = etag \<or> (trimmed = ''*'' \<and> etag \<noteq> '''') then
        ifNoneMatchLoop p etag rest
          ((if isWrite p then
              ctx @ [AddError \<lparr>Message = ''If-None-Match: '' @ match @ '' precondition failed, '' @ foundMsg etag,
                              Location = ''request.headers.If-None-Match'',
                              Value = StringValue match\<rparr>]
            else ctx),
           True)
      else ifNoneMatchLoop p etag rest (ctx, failed))"

text \<open>The loop over \<^verbatim>\<open>p.IfMatch\<close> computing \<^verbatim>\<open>found\<close>; it stops at the first match.\<close>

fun ifMatchFound :: "string \<Rightarrow> string list \<Rightarrow> bool" where
  "ifMatchFound etag [] = False"
| "ifMatchFound etag (match # rest) =
     (if trimETag match = etag then True else ifMatchFound etag rest)"

definition ifMatchBlock :: "Params \<Rightarrow> string \<Rightarrow> Context \<times> bool \<Rightarrow> Context \<times> bool" where
  "ifMatchBlock p etag s =
     (case s of (ctx, failed) \<Rightarrow>
        if length (IfMatch p) > 0 then
          (if \<not> ifMatchFound etag (IfMatch p) then
             ((if isWrite p then
                 ctx @ [AddError \<lparr>Message = ''If-Match precondition failed, '' @ foundMsg etag,
                                 Location = ''request.headers.If-Match'',
                                 Value = StringsValue (IfMatch p)\<rparr>]
               else ctx),
              True)
           else (ctx, failed))
        else (ctx, failed))"

definition ifModifiedSinceBlock ::
    "(Time \<Rightarrow> string) \<Rightarrow> Params \<Rightarrow> Time \<Rightarrow> Context \<times> bool \<Rightarrow> Context \<times> bool" where
  "ifModifiedSinceBlock Format p modified s =
     (case s of (ctx, failed) \<Rightarrow>
        if \<not> IsZero (IfModifiedSince p) \<and> \<not> After modified (IfModifiedSince p) then
          ((if isWrite p then
              ctx @ [AddError \<lparr>Message = ''If-Modified-Since: '' @ Format (IfModifiedSince p) @
                                '' precondition failed, resource was modified at '' @ Format modified,
                              Location = ''request.headers.If-Modified-Since'',
                              Value = StringValue (Format (IfModifiedSince p))\<rparr>]
            else ctx),
           True)
        else (ctx, failed))"

definition ifUnmodifiedSinceBlock ::
    "(Time \<Rightarrow> string) \<Rightarrow> Params \<Rightarrow> Time \<Rightarrow> Context \<times> bool \<Rightarrow> Context \<times> bool" where
  "ifUnmodifiedSinceBlock Format p modified s =
     (case s of (ctx, failed) \<Rightarrow>
        if \<not> IsZero (IfUnmodifiedSince p) \<and> After modified (IfUnmodifiedSince p) then
          ((if isWrite p then
              ctx @ [AddError \<lparr>Message = ''If-Unmodified-Since: '' @ Format (IfUnmodifiedSince p) @
                                '' precondition failed, resource was modified at '' @ Format modified,
                              Location = ''request.headers.If-Unmodified-Since'',
                              Value = StringValue (Format (IfUnmodifiedSince p))\<rparr>]
            else ctx),
           True)
        else (ctx, failed))"

text \<open>The end of the method: the response is written when \<^verbatim>\<open>failed\<close> is set.\<close>

definition respond :: "Params \<Rightarrow> Context \<times> bool \<Rightarrow> Context \<times> bool" where
  "respond p s =
     (case s of (ctx, failed) \<Rightarrow>
        if failed then
          ((if isWrite p then
              ctx @ [WriteError StatusPreconditionFailed (StatusText StatusPreconditionFailed)]
            else ctx @ [WriteHeader StatusNotModified]),
           True)
        else (ctx, False))"

text \<open>
  \<^verbatim>\<open>func (p *Params) PreconditionFailed(ctx huma.Context, etag string, modified time.Time) bool\<close>:
  the context after the call and the value returned.
\<close>

definition PreconditionFailed ::
    "(Time \<Rightarrow> string) \<Rightarrow> Params \<Rightarrow> Context \<Rightarrow> string \<Rightarrow> Time \<Rightarrow> Context \<times> bool" where
  "PreconditionFailed Format p ctx etag modified =
     respond p
       (ifUnmodifiedSinceBlock Format p modified
         (ifModifiedSinceBlock Format p modified
           (ifMatchBlock p etag
             (ifNoneMatchLoop p etag (IfNoneMatch p) (ctx, False)))))"

subsection \<open>Reading a context\<close>

text \<open>
  The error details a context has received, oldest first, and names for the four error
  details the method builds.
\<close>

fun errorsOf :: "Context \<Rightarrow> ErrorDetail list" where
  "errorsOf [] = []"
| "errorsOf (AddError e # calls) = e # errorsOf calls"
| "errorsOf (WriteError code msg # calls) = errorsOf calls"
| "errorsOf (WriteHeader code # calls) = errorsOf calls"

abbreviation noneMatchError :: "string \<Rightarrow> string \<Rightarrow> ErrorDetail" where
  "noneMatchError etag m \<equiv>
     \<lparr>Message = ''If-None-Match: '' @ m @ '' precondition failed, '' @ foundMsg etag,
      Location = ''request.headers.If-None-Match'',
      Value = StringValue m\<rparr>"

abbreviation matchError :: "Params \<Rightarrow> string \<Rightarrow> ErrorDetail" where
  "matchError p etag \<equiv>
     \<lparr>Message = ''If-Match precondition failed, '' @ foundMsg etag,
      Location = ''request.headers.If-Match'',
      Value = StringsValue (IfMatch p)\<rparr>"

abbreviation modifiedSinceError :: "(Time \<Rightarrow> string) \<Rightarrow> Params \<Rightarrow> Time \<Rightarrow> ErrorDetail" where
  "modifiedSinceError Format p modified \<equiv>
     \<lparr>Message = ''If-Modified-Since: '' @ Format (IfModifiedSince p) @
                 '' precondition failed, resource was modified at '' @ Format modified,
      Location = ''request.headers.If-Modified-Since'',
      Value = StringValue (Format (IfModifiedSince p))\<rparr>"

abbreviation unmodifiedSinceError :: "(Time \<Rightarrow> string) \<Rightarrow> Params \<Rightarrow> Time \<Rightarrow> ErrorDetail" where
  "unmodifiedSinceError Format p modified \<equiv>
     \<lparr>Message = ''If-Unmodified-Since: '' @ Format (IfUnmodifiedSince p) @
                 '' precondition failed, resource was modified at '' @ Format modified,
      Location = ''request.headers.If-Unmodified-Since'',
      Value = StringValue (Format (IfUnmodifiedSince p))\<rparr>"

section \<open>The blocks in closed form\<close>

lemma errorsOf_append: "errorsOf (xs @ ys) = errorsOf xs @ errorsOf ys"
  by (induction xs rule: errorsOf.induct) simp_all

lemma ifMatchFound_iff: "ifMatchFound etag ms \<longleftrightarrow> (\<exists>m\<in>set ms. trimETag m = etag)"
  by (induction ms) auto

lemma ifNoneMatchLoop_eq:
  "ifNoneMatchLoop p etag ms (ctx, failed) =
     (ctx @ (if isWrite p then
               map (\<lambda>m. AddError (noneMatchError etag m))
                 (filter (\<lambda>m. trimETag m = etag \<or> (trimETag m = ''*'' \<and> etag \<noteq> '''')) ms)
             else []),
      failed \<or> (\<exists>m\<in>set ms. trimETag m = etag \<or> (trimETag m = ''*'' \<and> etag \<noteq> '''')))"
  by (induction ms arbitrary: ctx failed) (auto simp: Let_def)

lemma ifMatchBlock_eq:
  "ifMatchBlock p etag (ctx, failed) =
     (ctx @ (if isWrite p \<and> IfMatch p \<noteq> [] \<and> (\<forall>m\<in>set (IfMatch p). trimETag m \<noteq> etag)
             then [AddError (matchError p etag)] else []),
      failed \<or> (IfMatch p \<noteq> [] \<and> (\<forall>m\<in>set (IfMatch p). trimETag m \<noteq> etag)))"
  by (auto simp: ifMatchBlock_def ifMatchFound_iff)

lemma ifModifiedSinceBlock_eq:
  "ifModifiedSinceBlock Format p modified (ctx, failed) =
     (ctx @ (if isWrite p \<and> \<not> IsZero (IfModifiedSince p) \<and> \<not> After modified (IfModifiedSince p)
             then [AddError (modifiedSinceError Format p modified)] else []),
      failed \<or> (\<not> IsZero (IfModifiedSince p) \<and> \<not> After modified (IfModifiedSince p)))"
  by (auto simp: ifModifiedSinceBlock_def)

lemma ifUnmodifiedSinceBlock_eq:
  "ifUnmodifiedSinceBlock Format p modified (ctx, failed) =
     (ctx @ (if isWrite p \<and> \<not> IsZero (IfUnmodifiedSince p) \<and> After modified (IfUnmodifiedSince p)
             then [AddError (unmodifiedSinceError Format p modified)] else []),
      failed \<or> (\<not> IsZero (IfUnmodifiedSince p) \<and> After modified (IfUnmodifiedSince p)))"
  by (auto simp: ifUnmodifiedSinceBlock_def)

lemma PreconditionFailed_snd:
  "snd (PreconditionFailed Format p ctx etag modified) \<longleftrightarrow>
     (\<exists>m\<in>set (IfNoneMatch p). trimETag m = etag \<or> (trimETag m = ''*'' \<and> etag \<noteq> '''')) \<or>
     (IfMatch p \<noteq> [] \<and> (\<forall>m\<in>set (IfMatch p). trimETag m \<noteq> etag)) \<or>
     (\<not> IsZero (IfModifiedSince p) \<and> \<not> After modified (IfModifiedSince p)) \<or>
     (\<not> IsZero (IfUnmodifiedSince p) \<and> After modified (IfUnmodifiedSince p))"
  unfolding PreconditionFailed_def ifNoneMatchLoop_eq ifMatchBlock_eq
    ifModifiedSinceBlock_eq ifUnmodifiedSinceBlock_eq respond_def
  by (simp only: prod.case snd_conv split: if_split) blast

lemma PreconditionFailed_fst:
  "fst (PreconditionFailed Format p ctx etag modified) =
     ctx @
     (if isWrite p then
        map AddError
          (map (noneMatchError etag)
             (filter (\<lambda>m. trimETag m = etag \<or> (trimETag m = ''*'' \<and> etag \<noteq> '''')) (IfNoneMatch p)) @
           (if IfMatch p \<noteq> [] \<and> (\<forall>m\<in>set (IfMatch p). trimETag m \<noteq> etag)
            then [matchError p etag] else []) @
           (if \<not> IsZero (IfModifiedSince p) \<and> \<not> After modified (IfModifiedSince p)
            then [modifiedSinceError Format p modified] else []) @
           (if \<not> IsZero (IfUnmodifiedSince p) \<and> After modified (IfUnmodifiedSince p)
            then [unmodifiedSinceError Format p modified] else []))
      else []) @
     (if snd (PreconditionFailed Format p ctx etag modified) then
        [if isWrite p then WriteError StatusPreconditionFailed (StatusText StatusPreconditionFailed)
         else WriteHeader StatusNotModified]
      else [])"
  unfolding PreconditionFailed_def ifNoneMatchLoop_eq ifMatchBlock_eq
    ifModifiedSinceBlock_eq ifUnmodifiedSinceBlock_eq respond_def
  by (simp add: comp_def)

lemma PreconditionFailed_unchanged:
  "\<not> snd (PreconditionFailed Format p ctx etag modified) \<Longrightarrow>
     PreconditionFailed Format p ctx etag modified = (ctx, False)"
proof -
  assume n: "\<not> snd (PreconditionFailed Format p ctx etag modified)"
  have "fst (PreconditionFailed Format p ctx etag modified) = ctx"
    using n
    unfolding PreconditionFailed_fst [of Format p ctx etag modified] PreconditionFailed_snd
    by (auto simp: filter_empty_conv)
  with n show ?thesis
    by (simp add: prod_eq_iff)
qed

lemma trimETag_examples:
  "trimETag (''W/'' @ quoted ''xyz'') = ''xyz''" "trimETag (quoted ''abc'') = ''abc''"
  by (simp_all add: trimETag_def HasPrefix_def Trim_def trimLeftByte_def trimRightByte_def
      quoted_def dquote_def)

lemma IsZero_zeroTime: "IsZero zeroTime"
  by (simp add: IsZero_def zeroTime_def)

lemma Trim_quoted: "Trim (quoted s) dquote = Trim s dquote"
proof -
  let ?P = "\<lambda>x. x = dquote"
  have r: "rev (dropWhile ?P (rev (quoted s))) =
      (if \<forall>x\<in>set s. x = dquote then [] else dquote # rev (dropWhile ?P (rev s)))"
    by (simp add: quoted_def dropWhile_append)
  show ?thesis
  proof (cases "\<forall>x\<in>set s. x = dquote")
    case True
    then have e: "dropWhile ?P (rev s) = []"
      by simp
    from True show ?thesis
      unfolding Trim_def trimLeftByte_def trimRightByte_def r e by simp
  next
    case False
    then have "rev (dropWhile ?P (rev (quoted s))) = dquote # rev (dropWhile ?P (rev s))"
      unfolding r by (simp only: if_False)
    then show ?thesis
      by (simp add: Trim_def trimLeftByte_def trimRightByte_def)
  qed
qed

lemma Trim_id:
  assumes "s = [] \<or> (hd s \<noteq> c \<and> last s \<noteq> c)"
  shows "Trim s c = s"
proof (cases "s = []")
  case True
  then show ?thesis
    by (simp add: Trim_def trimLeftByte_def trimRightByte_def)
next
  case False
  with assms have h: "hd s \<noteq> c" and l: "last s \<noteq> c"
    by auto
  from False l have "dropWhile (\<lambda>x. x = c) (rev s) = rev s"
    by (cases s rule: rev_cases) simp_all
  then have "trimRightByte s c = s"
    by (simp add: trimRightByte_def)
  moreover from False h have "trimLeftByte s c = s"
    by (cases s) (simp_all add: trimLeftByte_def)
  ultimately show ?thesis
    by (simp add: Trim_def)
qed

lemma Trim_ends: "Trim s c = [] \<or> (hd (Trim s c) \<noteq> c \<and> last (Trim s c) \<noteq> c)"
proof (cases "Trim s c = []")
  case True
  then show ?thesis
    by simp
next
  case False
  let ?P = "\<lambda>x. x = c"
  let ?U = "rev (dropWhile ?P (rev s))"
  have T: "Trim s c = dropWhile ?P ?U"
    by (simp add: Trim_def trimLeftByte_def trimRightByte_def)
  with False have h: "hd (Trim s c) \<noteq> c"
    using hd_dropWhile [of ?P ?U] by simp
  have U: "dropWhile ?P (rev s) \<noteq> []"
  proof
    assume e: "dropWhile ?P (rev s) = []"
    have "Trim s c = []"
      unfolding T e by simp
    with False show False
      by simp
  qed
  have "?U = takeWhile ?P ?U @ dropWhile ?P ?U"
    by simp
  with False T have "last ?U = last (Trim s c)"
    by (metis last_appendR)
  moreover from U have "last ?U = hd (dropWhile ?P (rev s))"
    by (simp add: last_rev)
  moreover from U have "hd (dropWhile ?P (rev s)) \<noteq> c"
    using hd_dropWhile [of ?P "rev s"] by simp
  ultimately have "last (Trim s c) \<noteq> c"
    by simp
  with h show ?thesis
    by simp
qed

section \<open>The claims\<close>

text \<open>
  Claim C1, as amended. Every supplied entity tag is normalised by \<open>trimETag\<close> before
  it is compared: a leading \<open>W/\<close> is dropped when the value is longer than two bytes
  (the value \<open>W/\<close> alone is kept), then every leading and every trailing double quote
  is removed, so that the result neither starts nor ends with a quote. A value between
  double quotes, with or without the prefix \<open>W/\<close>, thus becomes the text between the
  quotes with its own outer quotes removed, which is the text itself when it neither
  starts nor ends with a quote. The resource's tag is not normalised: each comparison
  is between a normalised supplied value and the tag as the caller passed it. So
  If-Match finds a match exactly when the normalised form of some listed value equals
  the resource's tag as given, and If-None-Match blocks exactly when the normalised form
  of some listed value equals the resource's tag as given or is \<open>*\<close> while the tag is
  not empty. For a resource tag that \<open>trimETag\<close> leaves unchanged, an If-Match value
  matches exactly when the normalised forms are equal: the resource tag \<open>abc\<close> is
  matched by \<open>"abc"\<close> and by \<open>W/"abc"\<close>.
\<close>

theorem C1_supplied_tags_normalised_resource_tag_as_given:
  "trimETag v =
     (let r = (if take 2 v = ''W/'' \<and> 2 < length v then drop 2 v else v)
      in dropWhile (\<lambda>x. x = CHR 0x22) (rev (dropWhile (\<lambda>x. x = CHR 0x22) (rev r)))) \<and>
   trimETag ''W/'' = ''W/'' \<and>
   (trimETag v = [] \<or> (hd (trimETag v) \<noteq> CHR 0x22 \<and> last (trimETag v) \<noteq> CHR 0x22)) \<and>
   trimETag (quoted s) = Trim s dquote \<and>
   trimETag (''W/'' @ quoted s) = Trim s dquote \<and>
   (s = [] \<or> (hd s \<noteq> dquote \<and> last s \<noteq> dquote) \<longrightarrow> Trim s dquote = s) \<and>
   (ifMatchFound etag ms \<longleftrightarrow> (\<exists>m\<in>set ms. trimETag m = etag)) \<and>
   (snd (ifNoneMatchLoop p etag ms (ctx, False)) \<longleftrightarrow>
      (\<exists>m\<in>set ms. trimETag m = etag \<or> (trimETag m = ''*'' \<and> etag \<noteq> ''''))) \<and>
   (IsZero (IfModifiedSince p) \<and> IsZero (IfUnmodifiedSince p) \<longrightarrow>
      (snd (PreconditionFailed Format p ctx etag modified) \<longleftrightarrow>
         (\<exists>m\<in>set (IfNoneMatch p). trimETag m = etag \<or> (trimETag m = ''*'' \<and> etag \<noteq> '''')) \<or>
         (IfMatch p \<noteq> [] \<and> (\<forall>m\<in>set (IfMatch p). trimETag m \<noteq> etag)))) \<and>
   (trimETag etag = etag \<longrightarrow>
      (ifMatchFound etag ms \<longleftrightarrow> (\<exists>m\<in>set ms. trimETag m = trimETag etag))) \<and>
   ifMatchFound ''abc'' [quoted ''abc''] \<and>
   ifMatchFound ''abc'' [''W/'' @ quoted ''abc'']"
proof (intro conjI impI)
  have l: "length ''W/'' = (2::nat)"
    by simp
  have "HasPrefix v ''W/'' \<longleftrightarrow> take 2 v = ''W/''"
    unfolding HasPrefix_def l
  proof
    assume "2 \<le> length v \<and> take 2 v = ''W/''"
    then show "take 2 v = ''W/''"
      by (rule conjunct2)
  next
    assume a: "take 2 v = ''W/''"
    then have "length (take 2 v) = length ''W/''"
      by (rule arg_cong)
    then have "2 \<le> length v"
      unfolding l by simp
    with a show "2 \<le> length v \<and> take 2 v = ''W/''"
      by (rule conjI [rotated])
  qed
  then show "trimETag v =
     (let r = (if take 2 v = ''W/'' \<and> 2 < length v then drop 2 v else v)
      in dropWhile (\<lambda>x. x = CHR 0x22) (rev (dropWhile (\<lambda>x. x = CHR 0x22) (rev r))))"
    by (simp add: trimETag_def Trim_def trimLeftByte_def trimRightByte_def dquote_def Let_def)
  show "trimETag ''W/'' = ''W/''"
    by (simp add: trimETag_def HasPrefix_def Trim_def trimLeftByte_def trimRightByte_def dquote_def)
  show "trimETag v = [] \<or> (hd (trimETag v) \<noteq> CHR 0x22 \<and> last (trimETag v) \<noteq> CHR 0x22)"
    using Trim_ends [of "if HasPrefix v ''W/'' \<and> length v > 2 then drop 2 v else v" dquote]
    by (simp add: trimETag_def Let_def dquote_def)
  have "\<not> HasPrefix (quoted s) ''W/''"
    by (simp add: HasPrefix_def quoted_def dquote_def)
  then show "trimETag (quoted s) = Trim s dquote"
    by (simp add: trimETag_def Trim_quoted)
  have "HasPrefix (''W/'' @ quoted s) ''W/''" and "quoted s \<noteq> []"
    by (simp_all add: HasPrefix_def quoted_def)
  then show "trimETag (''W/'' @ quoted s) = Trim s dquote"
    by (simp add: trimETag_def Trim_quoted)
  show "ifMatchFound etag ms \<longleftrightarrow> (\<exists>m\<in>set ms. trimETag m = etag)"
    by (rule ifMatchFound_iff)
  show "snd (ifNoneMatchLoop p etag ms (ctx, False)) \<longleftrightarrow>
      (\<exists>m\<in>set ms. trimETag m = etag \<or> (trimETag m = ''*'' \<and> etag \<noteq> ''''))"
    by (simp add: ifNoneMatchLoop_eq)
  show "ifMatchFound ''abc'' [quoted ''abc'']"
    by (simp add: trimETag_def HasPrefix_def Trim_def trimLeftByte_def trimRightByte_def
        quoted_def dquote_def)
  show "ifMatchFound ''abc'' [''W/'' @ quoted ''abc'']"
    by (simp add: trimETag_def HasPrefix_def Trim_def trimLeftByte_def trimRightByte_def
        quoted_def dquote_def)
next
  assume "s = [] \<or> (hd s \<noteq> dquote \<and> last s \<noteq> dquote)"
  then show "Trim s dquote = s"
    by (rule Trim_id)
next
  assume "IsZero (IfModifiedSince p) \<and> IsZero (IfUnmodifiedSince p)"
  then show "snd (PreconditionFailed Format p ctx etag modified) \<longleftrightarrow>
         (\<exists>m\<in>set (IfNoneMatch p). trimETag m = etag \<or> (trimETag m = ''*'' \<and> etag \<noteq> '''')) \<or>
         (IfMatch p \<noteq> [] \<and> (\<forall>m\<in>set (IfMatch p). trimETag m \<noteq> etag))"
    by (simp add: PreconditionFailed_snd)
next
  assume "trimETag etag = etag"
  then show "ifMatchFound etag ms \<longleftrightarrow> (\<exists>m\<in>set ms. trimETag m = trimETag etag)"
    by (simp add: ifMatchFound_iff)
qed

theorem C1_supplied_tags_normalised_resource_tag_as_given_witness:
  "Trim ''abc'' dquote = ''abc'' \<and>
   ifMatchFound ''abc'' [''W/'' @ quoted ''abc''] \<and>
   \<not> snd (PreconditionFailed (\<lambda>t. ''t'')
      \<lparr>IfMatch = [''W/'' @ quoted ''abc''], IfNoneMatch = [], IfModifiedSince = zeroTime,
       IfUnmodifiedSince = zeroTime, isWrite = True\<rparr> [] ''abc'' zeroTime)"
proof -
  let ?p = "\<lparr>IfMatch = [''W/'' @ quoted ''abc''], IfNoneMatch = [], IfModifiedSince = zeroTime,
       IfUnmodifiedSince = zeroTime, isWrite = True\<rparr>"
  note inst = C1_supplied_tags_normalised_resource_tag_as_given
    [of "''abc''" "''abc''" "''abc''" "[''W/'' @ quoted ''abc'']" ?p "[]" "\<lambda>t. ''t''" zeroTime]
  have "''abc'' = [] \<or> (hd ''abc'' \<noteq> dquote \<and> last ''abc'' \<noteq> dquote)"
    by (simp add: dquote_def)
  with inst have t: "Trim ''abc'' dquote = ''abc''"
    by blast
  from inst have "trimETag (''W/'' @ quoted ''abc'') = Trim ''abc'' dquote"
    by blast
  with t have m: "trimETag (''W/'' @ quoted ''abc'') = ''abc''"
    by simp
  have fp: "trimETag ''abc'' = ''abc''"
    by (simp add: trimETag_def HasPrefix_def Trim_def trimLeftByte_def trimRightByte_def dquote_def)
  from m fp have "\<exists>m\<in>set [''W/'' @ quoted ''abc'']. trimETag m = trimETag ''abc''"
    by simp
  with inst fp have f: "ifMatchFound ''abc'' [''W/'' @ quoted ''abc'']"
    by blast
  have z: "IsZero (IfModifiedSince ?p) \<and> IsZero (IfUnmodifiedSince ?p)"
    by (simp add: IsZero_def zeroTime_def)
  from m have "\<not> ((\<exists>m\<in>set (IfNoneMatch ?p). trimETag m = ''abc'' \<or> (trimETag m = ''*'' \<and> ''abc'' \<noteq> '''')) \<or>
      (IfMatch ?p \<noteq> [] \<and> (\<forall>m\<in>set (IfMatch ?p). trimETag m \<noteq> ''abc'')))"
    by simp
  with inst z have "\<not> snd (PreconditionFailed (\<lambda>t. ''t'') ?p [] ''abc'' zeroTime)"
    by blast
  with t f show ?thesis
    by simp
qed

text \<open>
  The claim as first stated also normalises the resource's own tag, so that a resource
  tag stored with its quotes, \<open>"abc"\<close>, would match the supplied If-Match value
  \<open>"abc"\<close>. It does not: the supplied value normalises to \<open>abc\<close>, the loop over
  If-Match compares it with the stored tag as it is and finds no match, and the
  evaluation (here a read) is blocked.
\<close>

theorem C1_counterexample:
  "trimETag (quoted ''abc'') = ''abc'' \<and>
   \<not> ifMatchFound (quoted ''abc'') [quoted ''abc''] \<and>
   PreconditionFailed (\<lambda>t. [])
      \<lparr>IfMatch = [quoted ''abc''], IfNoneMatch = [], IfModifiedSince = zeroTime,
       IfUnmodifiedSince = zeroTime, isWrite = False\<rparr> [] (quoted ''abc'') zeroTime =
     ([WriteHeader 304], True)"
  by (simp add: PreconditionFailed_def ifMatchBlock_def ifModifiedSinceBlock_def
      ifUnmodifiedSinceBlock_def respond_def trimETag_def HasPrefix_def Trim_def
      trimLeftByte_def trimRightByte_def quoted_def dquote_def IsZero_def zeroTime_def
      StatusNotModified_def)

text \<open>
  Claim C2, as amended. On a write the method returns true exactly when one of the four
  checks fails, and all four are evaluated whatever the others gave. The calls it makes
  on the context are then, in this order: one error detail for every listed
  If-None-Match value that matches, one for If-Match if that check fails, one for
  If-Modified-Since if that check fails, one for If-Unmodified-Since if that check
  fails, and last \<^verbatim>\<open>WriteError(412, "Precondition Failed")\<close> when a check failed.
  Every message starts with the name of its header.
\<close>

theorem C2_write_reports_every_failed_check:
  "isWrite p \<Longrightarrow>
   (snd (PreconditionFailed Format p ctx etag modified) \<longleftrightarrow>
      (\<exists>m\<in>set (IfNoneMatch p). trimETag m = etag \<or> (trimETag m = ''*'' \<and> etag \<noteq> '''')) \<or>
      (IfMatch p \<noteq> [] \<and> (\<forall>m\<in>set (IfMatch p). trimETag m \<noteq> etag)) \<or>
      (\<not> IsZero (IfModifiedSince p) \<and> \<not> After modified (IfModifiedSince p)) \<or>
      (\<not> IsZero (IfUnmodifiedSince p) \<and> After modified (IfUnmodifiedSince p))) \<and>
   fst (PreconditionFailed Format p ctx etag modified) =
     ctx @
     map AddError
       (map (noneMatchError etag)
          (filter (\<lambda>m. trimETag m = etag \<or> (trimETag m = ''*'' \<and> etag \<noteq> '''')) (IfNoneMatch p)) @
        (if IfMatch p \<noteq> [] \<and> (\<forall>m\<in>set (IfMatch p). trimETag m \<noteq> etag)
         then [matchError p etag] else []) @
        (if \<not> IsZero (IfModifiedSince p) \<and> \<not> After modified (IfModifiedSince p)
         then [modifiedSinceError Format p modified] else []) @
        (if \<not> IsZero (IfUnmodifiedSince p) \<and> After modified (IfUnmodifiedSince p)
         then [unmodifiedSinceError Format p modified] else [])) @
     (if snd (PreconditionFailed Format p ctx etag modified)
      then [WriteError 412 ''Precondition Failed''] else []) \<and>
   prefix ''If-None-Match'' (Message (noneMatchError etag m)) \<and>
   prefix ''If-Match'' (Message (matchError p etag)) \<and>
   prefix ''If-Modified-Since'' (Message (modifiedSinceError Format p modified)) \<and>
   prefix ''If-Unmodified-Since'' (Message (unmodifiedSinceError Format p modified))"
proof (intro conjI)
  assume w: "isWrite p"
  show "snd (PreconditionFailed Format p ctx etag modified) \<longleftrightarrow>
      (\<exists>m\<in>set (IfNoneMatch p). trimETag m = etag \<or> (trimETag m = ''*'' \<and> etag \<noteq> '''')) \<or>
      (IfMatch p \<noteq> [] \<and> (\<forall>m\<in>set (IfMatch p). trimETag m \<noteq> etag)) \<or>
      (\<not> IsZero (IfModifiedSince p) \<and> \<not> After modified (IfModifiedSince p)) \<or>
      (\<not> IsZero (IfUnmodifiedSince p) \<and> After modified (IfUnmodifiedSince p))"
    by (rule PreconditionFailed_snd)
  from w show "fst (PreconditionFailed Format p ctx etag modified) =
     ctx @
     map AddError
       (map (noneMatchError etag)
          (filter (\<lambda>m. trimETag m = etag \<or> (trimETag m = ''*'' \<and> etag \<noteq> '''')) (IfNoneMatch p)) @
        (if IfMatch p \<noteq> [] \<and> (\<forall>m\<in>set (IfMatch p). trimETag m \<noteq> etag)
         then [matchError p etag] else []) @
        (if \<not> IsZero (IfModifiedSince p) \<and> \<not> After modified (IfModifiedSince p)
         then [modifiedSinceError Format p modified] else []) @
        (if \<not> IsZero (IfUnmodifiedSince p) \<and> After modified (IfUnmodifiedSince p)
         then [unmodifiedSinceError Format p modified] else [])) @
     (if snd (PreconditionFailed Format p ctx etag modified)
      then [WriteError 412 ''Precondition Failed''] else [])"
    by (subst PreconditionFailed_fst)
      (simp add: StatusText_def StatusPreconditionFailed_def StatusNotModified_def)
  show "prefix ''If-None-Match'' (Message (noneMatchError etag m))"
    by simp
  show "prefix ''If-Match'' (Message (matchError p etag))"
    by simp
  show "prefix ''If-Modified-Since'' (Message (modifiedSinceError Format p modified))"
    by simp
  show "prefix ''If-Unmodified-Since'' (Message (unmodifiedSinceError Format p modified))"
    by simp
qed

theorem C2_write_reports_every_failed_check_witness:
  "snd (PreconditionFailed (\<lambda>t. ''t'')
      \<lparr>IfMatch = [''v1''], IfNoneMatch = [], IfModifiedSince = zeroTime,
       IfUnmodifiedSince = \<lparr>sec = 63839664000, nsec = 0, loc = ''UTC''\<rparr>, isWrite = True\<rparr>
      [] ''v2'' \<lparr>sec = 63839750400, nsec = 0, loc = ''UTC''\<rparr>)"
proof -
  let ?p = "\<lparr>IfMatch = [''v1''], IfNoneMatch = [], IfModifiedSince = zeroTime,
       IfUnmodifiedSince = \<lparr>sec = 63839664000, nsec = 0, loc = ''UTC''\<rparr>, isWrite = True\<rparr>"
  have w: "isWrite ?p"
    by simp
  have "\<not> IsZero (IfUnmodifiedSince ?p) \<and>
      After \<lparr>sec = 63839750400, nsec = 0, loc = ''UTC''\<rparr> (IfUnmodifiedSince ?p)"
    by (simp add: IsZero_def After_def)
  with C2_write_reports_every_failed_check
    [OF w, of "\<lambda>t. ''t''" "[]" "''v2''" "\<lparr>sec = 63839750400, nsec = 0, loc = ''UTC''\<rparr>" "[]", THEN conjunct1]
  show ?thesis
    by blast
qed

text \<open>
  The claim as first stated has exactly one error detail per failed check. On a write
  with resource tag \<open>abc\<close> and the single header If-None-Match listing \<open>"abc"\<close> and
  \<open>*\<close>, only the If-None-Match check fails (the three other blocks leave \<^verbatim>\<open>failed\<close>
  unset), and the context receives two error details, one for each listed value.
\<close>

theorem C2_counterexample:
  "errorsOf (fst (PreconditionFailed (\<lambda>t. [])
      \<lparr>IfMatch = [], IfNoneMatch = [quoted ''abc'', ''*''], IfModifiedSince = zeroTime,
       IfUnmodifiedSince = zeroTime, isWrite = True\<rparr> [] ''abc'' zeroTime)) =
     [\<lparr>Message = ''If-None-Match: '' @ quoted ''abc'' @
                   '' precondition failed, found resource with ETag abc'',
       Location = ''request.headers.If-None-Match'',
       Value = StringValue (quoted ''abc'')\<rparr>,
      \<lparr>Message = ''If-None-Match: * precondition failed, found resource with ETag abc'',
       Location = ''request.headers.If-None-Match'',
       Value = StringValue ''*''\<rparr>] \<and>
   ifMatchBlock
      \<lparr>IfMatch = [], IfNoneMatch = [quoted ''abc'', ''*''], IfModifiedSince = zeroTime,
       IfUnmodifiedSince = zeroTime, isWrite = True\<rparr> ''abc'' ([], False) = ([], False) \<and>
   ifModifiedSinceBlock (\<lambda>t. [])
      \<lparr>IfMatch = [], IfNoneMatch = [quoted ''abc'', ''*''], IfModifiedSince = zeroTime,
       IfUnmodifiedSince = zeroTime, isWrite = True\<rparr> zeroTime ([], False) = ([], False) \<and>
   ifUnmodifiedSinceBlock (\<lambda>t. [])
      \<lparr>IfMatch = [], IfNoneMatch = [quoted ''abc'', ''*''], IfModifiedSince = zeroTime,
       IfUnmodifiedSince = zeroTime, isWrite = True\<rparr> zeroTime ([], False) = ([], False)"
  by (simp add: PreconditionFailed_def ifMatchBlock_def ifModifiedSinceBlock_def
      ifUnmodifiedSinceBlock_def respond_def trimETag_def HasPrefix_def Trim_def
      trimLeftByte_def trimRightByte_def quoted_def dquote_def IsZero_def zeroTime_def
      foundMsg_def Let_def)

text \<open>
  Claim C3, as amended. The If-None-Match check blocks exactly when the resource's tag
  equals some listed value after the value is normalised by \<open>trimETag\<close>, or when a
  listed value normalises to \<open>*\<close> and the resource's tag is not empty. The wildcard is
  tested on the normalised value: the literal \<open>*\<close> counts, and so do \<open>"*"\<close>,
  \<open>W/"*"\<close> and \<open>W/*\<close> (the first conjunct and the last three). The first
  equivalence reads the variable \<^verbatim>\<open>failed\<close> right after the loop; the second says
  that the whole method returns true exactly when this check blocks or the method
  returns true without the header. Then the two examples: resource tag \<open>abc\<close>, a write
  with If-None-Match \<open>"abc"\<close> adds one error for the header, writes status 412 and
  returns true; with only If-None-Match \<open>W/"xyz"\<close> the method returns false and
  leaves the context as it was.
\<close>

theorem C3_if_none_match:
  "trimETag ''*'' = ''*'' \<and>
   (snd (ifNoneMatchLoop p etag (IfNoneMatch p) (ctx, False)) \<longleftrightarrow>
      (\<exists>m\<in>set (IfNoneMatch p). trimETag m = etag \<or> (trimETag m = ''*'' \<and> etag \<noteq> ''''))) \<and>
   (snd (PreconditionFailed Format p ctx etag modified) \<longleftrightarrow>
      (\<exists>m\<in>set (IfNoneMatch p). trimETag m = etag \<or> (trimETag m = ''*'' \<and> etag \<noteq> '''')) \<or>
      snd (PreconditionFailed Format (p\<lparr>IfNoneMatch := []\<rparr>) ctx etag modified)) \<and>
   PreconditionFailed Format
      \<lparr>IfMatch = [], IfNoneMatch = [quoted ''abc''], IfModifiedSince = zeroTime,
       IfUnmodifiedSince = zeroTime, isWrite = True\<rparr> [] ''abc'' modified =
     ([AddError \<lparr>Message = ''If-None-Match: '' @ quoted ''abc'' @
                            '' precondition failed, found resource with ETag abc'',
                 Location = ''request.headers.If-None-Match'',
                 Value = StringValue (quoted ''abc'')\<rparr>,
       WriteError 412 ''Precondition Failed''], True) \<and>
   PreconditionFailed Format
      \<lparr>IfMatch = [], IfNoneMatch = [''W/'' @ quoted ''xyz''], IfModifiedSince = zeroTime,
       IfUnmodifiedSince = zeroTime, isWrite = w\<rparr> ctx ''abc'' modified = (ctx, False) \<and>
   trimETag (quoted ''*'') = ''*'' \<and>
   trimETag (''W/'' @ quoted ''*'') = ''*'' \<and>
   trimETag ''W/*'' = ''*''"
proof (intro conjI)
  show "trimETag ''*'' = ''*''"
    by (simp add: trimETag_def HasPrefix_def Trim_def trimLeftByte_def trimRightByte_def dquote_def)
  show "snd (ifNoneMatchLoop p etag (IfNoneMatch p) (ctx, False)) \<longleftrightarrow>
      (\<exists>m\<in>set (IfNoneMatch p). trimETag m = etag \<or> (trimETag m = ''*'' \<and> etag \<noteq> ''''))"
    by (simp add: ifNoneMatchLoop_eq)
  show "snd (PreconditionFailed Format p ctx etag modified) \<longleftrightarrow>
      (\<exists>m\<in>set (IfNoneMatch p). trimETag m = etag \<or> (trimETag m = ''*'' \<and> etag \<noteq> '''')) \<or>
      snd (PreconditionFailed Format (p\<lparr>IfNoneMatch := []\<rparr>) ctx etag modified)"
    by (simp add: PreconditionFailed_snd)
  let ?p = "\<lparr>IfMatch = [], IfNoneMatch = [quoted ''abc''], IfModifiedSince = zeroTime,
       IfUnmodifiedSince = zeroTime, isWrite = True\<rparr>"
  have s: "snd (PreconditionFailed Format ?p [] ''abc'' modified)"
    by (simp add: PreconditionFailed_snd trimETag_examples)
  have "fst (PreconditionFailed Format ?p [] ''abc'' modified) =
      [AddError \<lparr>Message = ''If-None-Match: '' @ quoted ''abc'' @
                            '' precondition failed, found resource with ETag abc'',
                 Location = ''request.headers.If-None-Match'',
                 Value = StringValue (quoted ''abc'')\<rparr>,
       WriteError 412 ''Precondition Failed'']"
    unfolding PreconditionFailed_fst [of Format ?p "[]" "''abc''" modified]
    using s
    by (simp add: trimETag_examples IsZero_def zeroTime_def foundMsg_def
        StatusText_def StatusPreconditionFailed_def StatusNotModified_def)
  with s show "PreconditionFailed Format ?p [] ''abc'' modified =
     ([AddError \<lparr>Message = ''If-None-Match: '' @ quoted ''abc'' @
                            '' precondition failed, found resource with ETag abc'',
                 Location = ''request.headers.If-None-Match'',
                 Value = StringValue (quoted ''abc'')\<rparr>,
       WriteError 412 ''Precondition Failed''], True)"
    by (simp add: prod_eq_iff)
  show "PreconditionFailed Format
      \<lparr>IfMatch = [], IfNoneMatch = [''W/'' @ quoted ''xyz''], IfModifiedSince = zeroTime,
       IfUnmodifiedSince = zeroTime, isWrite = w\<rparr> ctx ''abc'' modified = (ctx, False)"
    using trimETag_examples(1)
    by (intro PreconditionFailed_unchanged)
      (simp add: PreconditionFailed_snd IsZero_def zeroTime_def)
  show "trimETag (quoted ''*'') = ''*''"
    by (simp add: trimETag_def HasPrefix_def Trim_def trimLeftByte_def trimRightByte_def
        quoted_def dquote_def)
  show "trimETag (''W/'' @ quoted ''*'') = ''*''"
    by (simp add: trimETag_def HasPrefix_def Trim_def trimLeftByte_def trimRightByte_def
        quoted_def dquote_def)
  show "trimETag ''W/*'' = ''*''"
    by (simp add: trimETag_def HasPrefix_def Trim_def trimLeftByte_def trimRightByte_def dquote_def)
qed

theorem C3_if_none_match_witness:
  "snd (PreconditionFailed (\<lambda>t. [])
      \<lparr>IfMatch = [], IfNoneMatch = [''*''], IfModifiedSince = zeroTime,
       IfUnmodifiedSince = zeroTime, isWrite = False\<rparr> [] ''abc'' zeroTime)"
proof -
  let ?p = "\<lparr>IfMatch = [], IfNoneMatch = [''*''], IfModifiedSince = zeroTime,
       IfUnmodifiedSince = zeroTime, isWrite = False\<rparr>"
  note inst = C3_if_none_match [of ?p "''abc''" "[]" "\<lambda>t. []" zeroTime False]
  from inst have "trimETag ''*'' = ''*''"
    by (rule conjunct1)
  then have "\<exists>m\<in>set (IfNoneMatch ?p). trimETag m = ''abc'' \<or> (trimETag m = ''*'' \<and> ''abc'' \<noteq> '''')"
    by simp
  with inst [THEN conjunct2, THEN conjunct2, THEN conjunct1] show ?thesis
    by blast
qed

text \<open>
  The claim as first stated has the wildcard only when the literal \<open>*\<close> is listed.
  With resource tag \<open>abc\<close> and the single header If-None-Match \<open>"*"\<close>, the
  literal \<open>*\<close> is not listed and the one listed value normalises to \<open>*\<close>, which is
  not the resource's tag; yet the evaluation (a read) is blocked, and the same
  evaluation without the header is not.
\<close>

theorem C3_counterexample:
  "''*'' \<notin> set [quoted ''*''] \<and>
   trimETag (quoted ''*'') \<noteq> ''abc'' \<and>
   PreconditionFailed (\<lambda>t. [])
      \<lparr>IfMatch = [], IfNoneMatch = [quoted ''*''], IfModifiedSince = zeroTime,
       IfUnmodifiedSince = zeroTime, isWrite = False\<rparr> [] ''abc'' zeroTime =
     ([WriteHeader 304], True) \<and>
   PreconditionFailed (\<lambda>t. [])
      \<lparr>IfMatch = [], IfNoneMatch = [], IfModifiedSince = zeroTime,
       IfUnmodifiedSince = zeroTime, isWrite = False\<rparr> [] ''abc'' zeroTime =
     ([], False)"
  by (simp add: PreconditionFailed_def ifMatchBlock_def ifModifiedSinceBlock_def
      ifUnmodifiedSinceBlock_def respond_def trimETag_def HasPrefix_def Trim_def
      trimLeftByte_def trimRightByte_def quoted_def dquote_def IsZero_def zeroTime_def
      StatusNotModified_def Let_def)

text \<open>
  Claim C4. The method returns true exactly when one of the four checks fails. On a read
  (\<open>isWrite\<close> false) that returns true, the only call on the context is
  \<^verbatim>\<open>WriteHeader(304)\<close>, and no read ever adds an error detail. When no check fails,
  on a read or a write, the method returns false and the context is untouched; this
  covers the request that carries no conditional header.
\<close>

theorem C4_read_blocks_without_errors:
  "(snd (PreconditionFailed Format p ctx etag modified) \<longleftrightarrow>
      (\<exists>m\<in>set (IfNoneMatch p). trimETag m = etag \<or> (trimETag m = ''*'' \<and> etag \<noteq> '''')) \<or>
      (IfMatch p \<noteq> [] \<and> (\<forall>m\<in>set (IfMatch p). trimETag m \<noteq> etag)) \<or>
      (\<not> IsZero (IfModifiedSince p) \<and> \<not> After modified (IfModifiedSince p)) \<or>
      (\<not> IsZero (IfUnmodifiedSince p) \<and> After modified (IfUnmodifiedSince p))) \<and>
   (\<not> isWrite p \<and> snd (PreconditionFailed Format p ctx etag modified) \<longrightarrow>
      PreconditionFailed Format p ctx etag modified = (ctx @ [WriteHeader StatusNotModified], True)) \<and>
   (\<not> isWrite p \<longrightarrow>
      errorsOf (fst (PreconditionFailed Format p ctx etag modified)) = errorsOf ctx) \<and>
   (\<not> snd (PreconditionFailed Format p ctx etag modified) \<longrightarrow>
      PreconditionFailed Format p ctx etag modified = (ctx, False)) \<and>
   (\<not> HasConditionalParams p \<longrightarrow>
      PreconditionFailed Format p ctx etag modified = (ctx, False))"
proof (intro conjI impI)
  show "snd (PreconditionFailed Format p ctx etag modified) \<longleftrightarrow>
      (\<exists>m\<in>set (IfNoneMatch p). trimETag m = etag \<or> (trimETag m = ''*'' \<and> etag \<noteq> '''')) \<or>
      (IfMatch p \<noteq> [] \<and> (\<forall>m\<in>set (IfMatch p). trimETag m \<noteq> etag)) \<or>
      (\<not> IsZero (IfModifiedSince p) \<and> \<not> After modified (IfModifiedSince p)) \<or>
      (\<not> IsZero (IfUnmodifiedSince p) \<and> After modified (IfUnmodifiedSince p))"
    by (rule PreconditionFailed_snd)
next
  assume a: "\<not> isWrite p \<and> snd (PreconditionFailed Format p ctx etag modified)"
  then have "fst (PreconditionFailed Format p ctx etag modified) = ctx @ [WriteHeader StatusNotModified]"
    by (subst PreconditionFailed_fst) simp
  with a show "PreconditionFailed Format p ctx etag modified =
      (ctx @ [WriteHeader StatusNotModified], True)"
    by (simp add: prod_eq_iff)
next
  assume "\<not> isWrite p"
  then show "errorsOf (fst (PreconditionFailed Format p ctx etag modified)) = errorsOf ctx"
    by (subst PreconditionFailed_fst) (simp add: errorsOf_append)
next
  assume "\<not> snd (PreconditionFailed Format p ctx etag modified)"
  then show "PreconditionFailed Format p ctx etag modified = (ctx, False)"
    by (rule PreconditionFailed_unchanged)
next
  assume "\<not> HasConditionalParams p"
  then have "\<not> snd (PreconditionFailed Format p ctx etag modified)"
    by (simp add: HasConditionalParams_def PreconditionFailed_snd)
  then show "PreconditionFailed Format p ctx etag modified = (ctx, False)"
    by (rule PreconditionFailed_unchanged)
qed

theorem C4_read_blocks_without_errors_witness:
  "PreconditionFailed (\<lambda>t. ''t'')
      \<lparr>IfMatch = [''current''], IfNoneMatch = [], IfModifiedSince = zeroTime,
       IfUnmodifiedSince = zeroTime, isWrite = False\<rparr> [] ''older'' zeroTime =
     ([] @ [WriteHeader StatusNotModified], True) \<and>
   errorsOf (fst (PreconditionFailed (\<lambda>t. ''t'')
      \<lparr>IfMatch = [''current''], IfNoneMatch = [], IfModifiedSince = zeroTime,
       IfUnmodifiedSince = zeroTime, isWrite = False\<rparr> [] ''older'' zeroTime)) = errorsOf [] \<and>
   PreconditionFailed (\<lambda>t. ''t'')
      \<lparr>IfMatch = [], IfNoneMatch = [], IfModifiedSince = zeroTime,
       IfUnmodifiedSince = zeroTime, isWrite = True\<rparr> [] ''older'' zeroTime = ([], False)"
proof -
  let ?p = "\<lparr>IfMatch = [''current''], IfNoneMatch = [], IfModifiedSince = zeroTime,
       IfUnmodifiedSince = zeroTime, isWrite = False\<rparr>"
  let ?q = "\<lparr>IfMatch = [], IfNoneMatch = [], IfModifiedSince = zeroTime,
       IfUnmodifiedSince = zeroTime, isWrite = True\<rparr>"
  note inst = C4_read_blocks_without_errors [of "\<lambda>t. ''t''" ?p "[]" "''older''" zeroTime]
  note inst' = C4_read_blocks_without_errors [of "\<lambda>t. ''t''" ?q "[]" "''older''" zeroTime]
  have t: "trimETag ''current'' \<noteq> ''older''"
    by (simp add: trimETag_def HasPrefix_def Trim_def trimLeftByte_def trimRightByte_def dquote_def)
  then have "IfMatch ?p \<noteq> [] \<and> (\<forall>m\<in>set (IfMatch ?p). trimETag m \<noteq> ''older'')"
    by simp
  with inst [THEN conjunct1]
  have b: "snd (PreconditionFailed (\<lambda>t. ''t'') ?p [] ''older'' zeroTime)"
    by blast
  have r: "\<not> isWrite ?p"
    by simp
  from inst [THEN conjunct2, THEN conjunct1] r b
  have one: "PreconditionFailed (\<lambda>t. ''t'') ?p [] ''older'' zeroTime =
      ([] @ [WriteHeader StatusNotModified], True)"
    by blast
  from inst [THEN conjunct2, THEN conjunct2, THEN conjunct1] r
  have two: "errorsOf (fst (PreconditionFailed (\<lambda>t. ''t'') ?p [] ''older'' zeroTime)) = errorsOf []"
    by blast
  have "\<not> HasConditionalParams ?q"
    by (simp add: HasConditionalParams_def IsZero_def zeroTime_def)
  with inst' [THEN conjunct2, THEN conjunct2, THEN conjunct2, THEN conjunct2]
  have three: "PreconditionFailed (\<lambda>t. ''t'') ?q [] ''older'' zeroTime = ([], False)"
    by blast
  then have "\<not> snd (PreconditionFailed (\<lambda>t. ''t'') ?q [] ''older'' zeroTime)"
    by simp
  with inst' [THEN conjunct2, THEN conjunct2, THEN conjunct2, THEN conjunct1]
  have "PreconditionFailed (\<lambda>t. ''t'') ?q [] ''older'' zeroTime = ([], False)"
    by blast
  with one two show ?thesis
    by blast
qed

text \<open>
  Claim C5. The If-Match check fails exactly when the list is not empty and the
  resource's tag equals none of the listed values after \<open>trimETag\<close>: stated on the
  variable \<^verbatim>\<open>failed\<close> after the block, and on the value the method returns (it is
  true exactly when this check fails or the method returns true without the header).
  With an empty list the block changes nothing.
\<close>

theorem C5_if_match:
  "(snd (ifMatchBlock p etag (ctx, False)) \<longleftrightarrow>
      IfMatch p \<noteq> [] \<and> (\<forall>m\<in>set (IfMatch p). trimETag m \<noteq> etag)) \<and>
   (snd (PreconditionFailed Format p ctx etag modified) \<longleftrightarrow>
      (IfMatch p \<noteq> [] \<and> (\<forall>m\<in>set (IfMatch p). trimETag m \<noteq> etag)) \<or>
      snd (PreconditionFailed Format (p\<lparr>IfMatch := []\<rparr>) ctx etag modified)) \<and>
   (IfMatch p = [] \<longrightarrow> ifMatchBlock p etag (ctx, failed) = (ctx, failed))"
proof (intro conjI impI)
  show "snd (ifMatchBlock p etag (ctx, False)) \<longleftrightarrow>
      IfMatch p \<noteq> [] \<and> (\<forall>m\<in>set (IfMatch p). trimETag m \<noteq> etag)"
    by (simp add: ifMatchBlock_eq)
  show "snd (PreconditionFailed Format p ctx etag modified) \<longleftrightarrow>
      (IfMatch p \<noteq> [] \<and> (\<forall>m\<in>set (IfMatch p). trimETag m \<noteq> etag)) \<or>
      snd (PreconditionFailed Format (p\<lparr>IfMatch := []\<rparr>) ctx etag modified)"
    unfolding PreconditionFailed_snd by auto
  assume "IfMatch p = []"
  then show "ifMatchBlock p etag (ctx, failed) = (ctx, failed)"
    by (simp add: ifMatchBlock_eq)
qed

theorem C5_if_match_witness:
  "snd (PreconditionFailed (\<lambda>t. ''t'')
      \<lparr>IfMatch = [quoted ''v1'', ''W/'' @ quoted ''v2''], IfNoneMatch = [],
       IfModifiedSince = zeroTime, IfUnmodifiedSince = zeroTime, isWrite = True\<rparr>
      [] ''v3'' zeroTime) \<and>
   ifMatchBlock
      \<lparr>IfMatch = [], IfNoneMatch = [], IfModifiedSince = zeroTime,
       IfUnmodifiedSince = zeroTime, isWrite = True\<rparr> ''v3'' ([], False) = ([], False)"
proof -
  let ?p = "\<lparr>IfMatch = [quoted ''v1'', ''W/'' @ quoted ''v2''], IfNoneMatch = [],
       IfModifiedSince = zeroTime, IfUnmodifiedSince = zeroTime, isWrite = True\<rparr>"
  let ?q = "\<lparr>IfMatch = [], IfNoneMatch = [], IfModifiedSince = zeroTime,
       IfUnmodifiedSince = zeroTime, isWrite = True\<rparr>"
  have "IfMatch ?p \<noteq> [] \<and> (\<forall>m\<in>set (IfMatch ?p). trimETag m \<noteq> ''v3'')"
    by (simp add: trimETag_def HasPrefix_def Trim_def trimLeftByte_def trimRightByte_def
        quoted_def dquote_def)
  with C5_if_match [of ?p "''v3''" "[]" "\<lambda>t. ''t''" zeroTime False, THEN conjunct2, THEN conjunct1]
  have one: "snd (PreconditionFailed (\<lambda>t. ''t'') ?p [] ''v3'' zeroTime)"
    by blast
  have "IfMatch ?q = []"
    by simp
  with C5_if_match [of ?q "''v3''" "[]" "\<lambda>t. ''t''" zeroTime False, THEN conjunct2, THEN conjunct2]
  have "ifMatchBlock ?q ''v3'' ([], False) = ([], False)"
    by blast
  with one show ?thesis
    by blast
qed

text \<open>
  Claim C6. With a supplied (non-zero) time, the If-Modified-Since check fails exactly
  when the modification time is not after the supplied time, and the
  If-Unmodified-Since check fails exactly when it is after it; \<^verbatim>\<open>After\<close> is strict
  (no time is after itself). The first two conjuncts read the variable \<^verbatim>\<open>failed\<close>
  after each block, the third the value the method returns. When the modification time
  equals the supplied If-Modified-Since time, a read returns true and its only call on
  the context is \<^verbatim>\<open>WriteHeader(304)\<close>, so no error is added; when it equals the
  supplied If-Unmodified-Since time, that block changes nothing. The next two conjuncts
  say the same of two times at the same instant, whatever their locations; the last
  one spells out \<^verbatim>\<open>After\<close> on the seconds and nanoseconds of the two instants.
\<close>

theorem C6_modification_time_checks:
  "(\<not> IsZero (IfModifiedSince p) \<longrightarrow>
      (snd (ifModifiedSinceBlock Format p modified (ctx, False)) \<longleftrightarrow>
       \<not> After modified (IfModifiedSince p))) \<and>
   (\<not> IsZero (IfUnmodifiedSince p) \<longrightarrow>
      (snd (ifUnmodifiedSinceBlock Format p modified (ctx, False)) \<longleftrightarrow>
       After modified (IfUnmodifiedSince p))) \<and>
   (\<not> IsZero (IfModifiedSince p) \<and> \<not> IsZero (IfUnmodifiedSince p) \<longrightarrow>
      (snd (PreconditionFailed Format p ctx etag modified) \<longleftrightarrow>
       \<not> After modified (IfModifiedSince p) \<or>
       After modified (IfUnmodifiedSince p) \<or>
       snd (PreconditionFailed Format
              (p\<lparr>IfModifiedSince := zeroTime, IfUnmodifiedSince := zeroTime\<rparr>) ctx etag modified))) \<and>
   \<not> After modified modified \<and>
   (\<not> IsZero modified \<and> IfModifiedSince p = modified \<and> \<not> isWrite p \<longrightarrow>
      PreconditionFailed Format p ctx etag modified =
        (ctx @ [WriteHeader StatusNotModified], True)) \<and>
   (IfUnmodifiedSince p = modified \<longrightarrow>
      ifUnmodifiedSinceBlock Format p modified (ctx, failed) = (ctx, failed)) \<and>
   (\<not> IsZero (IfModifiedSince p) \<and> sec (IfModifiedSince p) = sec modified \<and>
    nsec (IfModifiedSince p) = nsec modified \<and> \<not> isWrite p \<longrightarrow>
      PreconditionFailed Format p ctx etag modified =
        (ctx @ [WriteHeader StatusNotModified], True)) \<and>
   (sec (IfUnmodifiedSince p) = sec modified \<and> nsec (IfUnmodifiedSince p) = nsec modified \<longrightarrow>
      ifUnmodifiedSinceBlock Format p modified (ctx, failed) = (ctx, failed)) \<and>
   (After t u \<longleftrightarrow> sec u < sec t \<or> (sec t = sec u \<and> nsec u < nsec t))"
proof (intro conjI impI)
  assume "\<not> IsZero (IfModifiedSince p)"
  then show "snd (ifModifiedSinceBlock Format p modified (ctx, False)) \<longleftrightarrow>
      \<not> After modified (IfModifiedSince p)"
    by (simp add: ifModifiedSinceBlock_eq)
next
  assume "\<not> IsZero (IfUnmodifiedSince p)"
  then show "snd (ifUnmodifiedSinceBlock Format p modified (ctx, False)) \<longleftrightarrow>
      After modified (IfUnmodifiedSince p)"
    by (simp add: ifUnmodifiedSinceBlock_eq)
next
  assume "\<not> IsZero (IfModifiedSince p) \<and> \<not> IsZero (IfUnmodifiedSince p)"
  moreover have "IsZero zeroTime"
    by (simp add: IsZero_def zeroTime_def)
  ultimately show "snd (PreconditionFailed Format p ctx etag modified) \<longleftrightarrow>
       \<not> After modified (IfModifiedSince p) \<or>
       After modified (IfUnmodifiedSince p) \<or>
       snd (PreconditionFailed Format
              (p\<lparr>IfModifiedSince := zeroTime, IfUnmodifiedSince := zeroTime\<rparr>) ctx etag modified)"
    unfolding PreconditionFailed_snd by auto
next
  show "\<not> After modified modified"
    by (simp add: After_def)
next
  assume a: "\<not> IsZero modified \<and> IfModifiedSince p = modified \<and> \<not> isWrite p"
  then have b: "snd (PreconditionFailed Format p ctx etag modified)"
    by (simp add: PreconditionFailed_snd After_def)
  with a have "fst (PreconditionFailed Format p ctx etag modified) =
      ctx @ [WriteHeader StatusNotModified]"
    by (subst PreconditionFailed_fst) simp
  with b show "PreconditionFailed Format p ctx etag modified =
      (ctx @ [WriteHeader StatusNotModified], True)"
    by (simp add: prod_eq_iff)
next
  assume "IfUnmodifiedSince p = modified"
  then show "ifUnmodifiedSinceBlock Format p modified (ctx, failed) = (ctx, failed)"
    by (simp add: ifUnmodifiedSinceBlock_eq After_def)
next
  assume a: "\<not> IsZero (IfModifiedSince p) \<and> sec (IfModifiedSince p) = sec modified \<and>
    nsec (IfModifiedSince p) = nsec modified \<and> \<not> isWrite p"
  then have b: "snd (PreconditionFailed Format p ctx etag modified)"
    by (simp add: PreconditionFailed_snd After_def)
  with a have "fst (PreconditionFailed Format p ctx etag modified) =
      ctx @ [WriteHeader StatusNotModified]"
    by (subst PreconditionFailed_fst) simp
  with b show "PreconditionFailed Format p ctx etag modified =
      (ctx @ [WriteHeader StatusNotModified], True)"
    by (simp add: prod_eq_iff)
next
  assume "sec (IfUnmodifiedSince p) = sec modified \<and> nsec (IfUnmodifiedSince p) = nsec modified"
  then show "ifUnmodifiedSinceBlock Format p modified (ctx, failed) = (ctx, failed)"
    by (simp add: ifUnmodifiedSinceBlock_eq After_def)
next
  show "After t u \<longleftrightarrow> sec u < sec t \<or> (sec t = sec u \<and> nsec u < nsec t)"
    by (simp add: After_def)
qed

theorem C6_modification_time_checks_witness:
  "snd (ifModifiedSinceBlock (\<lambda>t. ''t'')
      \<lparr>IfMatch = [], IfNoneMatch = [], IfModifiedSince = \<lparr>sec = 63839750400, nsec = 0, loc = ''UTC''\<rparr>,
       IfUnmodifiedSince = \<lparr>sec = 63839750400, nsec = 0, loc = ''UTC''\<rparr>, isWrite = False\<rparr>
      \<lparr>sec = 63839750400, nsec = 0, loc = ''UTC''\<rparr> ([], False)) \<and>
   \<not> snd (ifUnmodifiedSinceBlock (\<lambda>t. ''t'')
      \<lparr>IfMatch = [], IfNoneMatch = [], IfModifiedSince = \<lparr>sec = 63839750400, nsec = 0, loc = ''UTC''\<rparr>,
       IfUnmodifiedSince = \<lparr>sec = 63839750400, nsec = 0, loc = ''UTC''\<rparr>, isWrite = False\<rparr>
      \<lparr>sec = 63839750400, nsec = 0, loc = ''UTC''\<rparr> ([], False)) \<and>
   PreconditionFailed (\<lambda>t. ''t'')
      \<lparr>IfMatch = [], IfNoneMatch = [], IfModifiedSince = \<lparr>sec = 63839750400, nsec = 0, loc = ''UTC''\<rparr>,
       IfUnmodifiedSince = \<lparr>sec = 63839750400, nsec = 0, loc = ''UTC''\<rparr>, isWrite = False\<rparr>
      [] ''abc'' \<lparr>sec = 63839750400, nsec = 0, loc = ''UTC''\<rparr> =
     ([] @ [WriteHeader StatusNotModified], True) \<and>
   PreconditionFailed (\<lambda>t. ''t'')
      \<lparr>IfMatch = [], IfNoneMatch = [], IfModifiedSince = \<lparr>sec = 63839750400, nsec = 0, loc = ''UTC''\<rparr>,
       IfUnmodifiedSince = \<lparr>sec = 63839750400, nsec = 0, loc = ''UTC''\<rparr>, isWrite = False\<rparr>
      [] ''abc'' \<lparr>sec = 63839750400, nsec = 0, loc = ''Europe/Paris''\<rparr> =
     ([] @ [WriteHeader StatusNotModified], True)"
proof -
  let ?t = "\<lparr>sec = 63839750400, nsec = 0, loc = ''UTC''\<rparr>"
  let ?p = "\<lparr>IfMatch = [], IfNoneMatch = [], IfModifiedSince = ?t,
       IfUnmodifiedSince = ?t, isWrite = False\<rparr>"
  note inst = C6_modification_time_checks [of ?p "\<lambda>t. ''t''" ?t "[]" "''abc''" False ?t ?t]
  have z: "\<not> IsZero ?t"
    by (simp add: IsZero_def)
  then have h1: "\<not> IsZero (IfModifiedSince ?p)" and h2: "\<not> IsZero (IfUnmodifiedSince ?p)"
    and h3: "\<not> IsZero ?t \<and> IfModifiedSince ?p = ?t \<and> \<not> isWrite ?p"
    and h4: "IfUnmodifiedSince ?p = ?t"
    by simp_all
  from inst have n: "\<not> After ?t ?t"
    by blast
  from inst h1 have "snd (ifModifiedSinceBlock (\<lambda>t. ''t'') ?p ?t ([], False)) \<longleftrightarrow>
      \<not> After ?t (IfModifiedSince ?p)"
    by blast
  with n have one: "snd (ifModifiedSinceBlock (\<lambda>t. ''t'') ?p ?t ([], False))"
    by simp
  from inst h2 have "snd (ifUnmodifiedSinceBlock (\<lambda>t. ''t'') ?p ?t ([], False)) \<longleftrightarrow>
      After ?t (IfUnmodifiedSince ?p)"
    by blast
  with n have two: "\<not> snd (ifUnmodifiedSinceBlock (\<lambda>t. ''t'') ?p ?t ([], False))"
    by simp
  from inst h4 have "ifUnmodifiedSinceBlock (\<lambda>t. ''t'') ?p ?t ([], False) = ([], False)"
    by blast
  from inst h3 have three: "PreconditionFailed (\<lambda>t. ''t'') ?p [] ''abc'' ?t =
      ([] @ [WriteHeader StatusNotModified], True)"
    by blast
  let ?u = "\<lparr>sec = 63839750400, nsec = 0, loc = ''Europe/Paris''\<rparr>"
  note inst' = C6_modification_time_checks [of ?p "\<lambda>t. ''t''" ?u "[]" "''abc''" False ?u ?t]
  from z have "\<not> IsZero (IfModifiedSince ?p) \<and> sec (IfModifiedSince ?p) = sec ?u \<and>
      nsec (IfModifiedSince ?p) = nsec ?u \<and> \<not> isWrite ?p"
    by simp
  with inst' have "PreconditionFailed (\<lambda>t. ''t'') ?p [] ''abc'' ?u =
      ([] @ [WriteHeader StatusNotModified], True)"
    by blast
  with one two three show ?thesis
    by blast
qed

text \<open>
  Claim C7, as amended. The value returned and the calls made are a function of the
  parameters, the resource's tag and its modification time alone: whatever the context
  has received before, the evaluation appends to it the calls it makes on an empty
  context and returns the same value. These calls are its only effect, and it makes
  none when it returns false.
\<close>

theorem C7_effects_only_on_the_context:
  "PreconditionFailed Format p ctx etag modified =
     (ctx @ fst (PreconditionFailed Format p [] etag modified),
      snd (PreconditionFailed Format p [] etag modified)) \<and>
   (\<not> snd (PreconditionFailed Format p ctx etag modified) \<longrightarrow>
      fst (PreconditionFailed Format p ctx etag modified) = ctx)"
proof (intro conjI impI)
  have s: "snd (PreconditionFailed Format p ctx etag modified) =
      snd (PreconditionFailed Format p [] etag modified)"
    by (simp only: PreconditionFailed_snd)
  have "fst (PreconditionFailed Format p ctx etag modified) =
      ctx @ fst (PreconditionFailed Format p [] etag modified)"
    unfolding PreconditionFailed_fst [of Format p ctx etag modified]
      PreconditionFailed_fst [of Format p "[]" etag modified] s
    by simp
  with s show "PreconditionFailed Format p ctx etag modified =
     (ctx @ fst (PreconditionFailed Format p [] etag modified),
      snd (PreconditionFailed Format p [] etag modified))"
    by (simp add: prod_eq_iff)
next
  assume "\<not> snd (PreconditionFailed Format p ctx etag modified)"
  then show "fst (PreconditionFailed Format p ctx etag modified) = ctx"
    by (simp add: PreconditionFailed_unchanged)
qed

theorem C7_effects_only_on_the_context_witness:
  "fst (PreconditionFailed (\<lambda>t. ''t'')
      \<lparr>IfMatch = [''v1''], IfNoneMatch = [], IfModifiedSince = zeroTime,
       IfUnmodifiedSince = zeroTime, isWrite = True\<rparr>
      [WriteHeader 200] ''v1'' zeroTime) = [WriteHeader 200]"
proof -
  let ?p = "\<lparr>IfMatch = [''v1''], IfNoneMatch = [], IfModifiedSince = zeroTime,
       IfUnmodifiedSince = zeroTime, isWrite = True\<rparr>"
  have "trimETag ''v1'' = ''v1''"
    by (simp add: trimETag_def HasPrefix_def Trim_def trimLeftByte_def trimRightByte_def dquote_def)
  then have "\<not> snd (PreconditionFailed (\<lambda>t. ''t'') ?p [WriteHeader 200] ''v1'' zeroTime)"
    by (simp add: PreconditionFailed_snd IsZero_def zeroTime_def)
  with C7_effects_only_on_the_context
    [of "\<lambda>t. ''t''" ?p "[WriteHeader 200]" "''v1''" zeroTime, THEN conjunct2]
  show ?thesis
    by blast
qed

text \<open>
  The claim as first stated has the evaluation modify no state outside its result. On a
  read whose If-None-Match value equals the resource's tag, the evaluation calls
  \<^verbatim>\<open>WriteHeader(304)\<close> on the context it was given.
\<close>

theorem C7_counterexample:
  "PreconditionFailed (\<lambda>t. [])
      \<lparr>IfMatch = [], IfNoneMatch = [''abc''], IfModifiedSince = zeroTime,
       IfUnmodifiedSince = zeroTime, isWrite = False\<rparr> [] ''abc'' zeroTime =
     ([WriteHeader 304], True)"
  by (simp add: PreconditionFailed_def ifMatchBlock_def ifModifiedSinceBlock_def
      ifUnmodifiedSinceBlock_def respond_def trimETag_def HasPrefix_def Trim_def
      trimLeftByte_def trimRightByte_def dquote_def IsZero_def zeroTime_def
      StatusNotModified_def Let_def)

text \<open>
  Claim C8. On parameters whose \<open>isWrite\<close> is false, as they are before \<^verbatim>\<open>Resolve\<close>
  runs, \<^verbatim>\<open>Resolve\<close> sets \<open>isWrite\<close> exactly when the method is POST, PUT, PATCH or
  DELETE (the comparison is on the exact string) and changes no other field; GET and
  HEAD leave it false. When \<open>isWrite\<close> stays false the evaluation behaves as a read:
  it adds no error, and if it returns true its only call is \<^verbatim>\<open>WriteHeader(304)\<close>.
\<close>

theorem C8_resolve_marks_writes:
  "\<not> isWrite p \<Longrightarrow>
   (isWrite (Resolve method p) \<longleftrightarrow>
      method = ''POST'' \<or> method = ''PUT'' \<or> method = ''PATCH'' \<or> method = ''DELETE'') \<and>
   IfMatch (Resolve method p) = IfMatch p \<and>
   IfNoneMatch (Resolve method p) = IfNoneMatch p \<and>
   IfModifiedSince (Resolve method p) = IfModifiedSince p \<and>
   IfUnmodifiedSince (Resolve method p) = IfUnmodifiedSince p \<and>
   \<not> isWrite (Resolve ''GET'' p) \<and> \<not> isWrite (Resolve ''HEAD'' p) \<and>
   (\<not> isWrite (Resolve method p) \<longrightarrow>
      errorsOf (fst (PreconditionFailed Format (Resolve method p) ctx etag modified)) = errorsOf ctx \<and>
      (snd (PreconditionFailed Format (Resolve method p) ctx etag modified) \<longrightarrow>
         fst (PreconditionFailed Format (Resolve method p) ctx etag modified) =
           ctx @ [WriteHeader StatusNotModified]))"
proof (intro conjI impI)
  assume r: "\<not> isWrite p"
  then show "isWrite (Resolve method p) \<longleftrightarrow>
      method = ''POST'' \<or> method = ''PUT'' \<or> method = ''PATCH'' \<or> method = ''DELETE''"
    by (simp add: Resolve_def MethodPost_def MethodPut_def MethodPatch_def MethodDelete_def)
  show "IfMatch (Resolve method p) = IfMatch p"
    by (simp add: Resolve_def)
  show "IfNoneMatch (Resolve method p) = IfNoneMatch p"
    by (simp add: Resolve_def)
  show "IfModifiedSince (Resolve method p) = IfModifiedSince p"
    by (simp add: Resolve_def)
  show "IfUnmodifiedSince (Resolve method p) = IfUnmodifiedSince p"
    by (simp add: Resolve_def)
  from r show "\<not> isWrite (Resolve ''GET'' p)"
    by (simp add: Resolve_def MethodPost_def MethodPut_def MethodPatch_def MethodDelete_def)
  from r show "\<not> isWrite (Resolve ''HEAD'' p)"
    by (simp add: Resolve_def MethodPost_def MethodPut_def MethodPatch_def MethodDelete_def)
next
  assume "\<not> isWrite (Resolve method p)"
  then show "errorsOf (fst (PreconditionFailed Format (Resolve method p) ctx etag modified)) =
      errorsOf ctx"
    by (subst PreconditionFailed_fst) (simp add: errorsOf_append)
next
  assume "\<not> isWrite (Resolve method p)"
    and "snd (PreconditionFailed Format (Resolve method p) ctx etag modified)"
  then show "fst (PreconditionFailed Format (Resolve method p) ctx etag modified) =
      ctx @ [WriteHeader StatusNotModified]"
    by (subst PreconditionFailed_fst) simp
qed

theorem C8_resolve_marks_writes_witness:
  "isWrite (Resolve ''PATCH''
      \<lparr>IfMatch = [''v1''], IfNoneMatch = [], IfModifiedSince = zeroTime,
       IfUnmodifiedSince = zeroTime, isWrite = False\<rparr>) \<and>
   \<not> isWrite (Resolve ''OPTIONS''
      \<lparr>IfMatch = [''v1''], IfNoneMatch = [], IfModifiedSince = zeroTime,
       IfUnmodifiedSince = zeroTime, isWrite = False\<rparr>) \<and>
   fst (PreconditionFailed (\<lambda>t. [])
      (Resolve ''OPTIONS''
        \<lparr>IfMatch = [''v1''], IfNoneMatch = [], IfModifiedSince = zeroTime,
         IfUnmodifiedSince = zeroTime, isWrite = False\<rparr>) [] ''v2'' zeroTime) =
     [] @ [WriteHeader StatusNotModified]"
proof -
  let ?p = "\<lparr>IfMatch = [''v1''], IfNoneMatch = [], IfModifiedSince = zeroTime,
       IfUnmodifiedSince = zeroTime, isWrite = False\<rparr>"
  have r: "\<not> isWrite ?p"
    by simp
  note inst = C8_resolve_marks_writes [OF r, of "''PATCH''" "\<lambda>t. []" "[]" "''v2''" zeroTime]
  note inst' = C8_resolve_marks_writes [OF r, of "''OPTIONS''" "\<lambda>t. []" "[]" "''v2''" zeroTime]
  have one: "isWrite (Resolve ''PATCH'' ?p)"
    using inst [THEN conjunct1] by simp
  have two: "\<not> isWrite (Resolve ''OPTIONS'' ?p)"
    using inst' [THEN conjunct1] by simp
  note read = inst' [THEN conjunct2, THEN conjunct2, THEN conjunct2, THEN conjunct2,
      THEN conjunct2, THEN conjunct2, THEN conjunct2, THEN mp, OF two, THEN conjunct2]
  have "Resolve ''OPTIONS'' ?p = ?p"
    by (simp add: Resolve_def MethodPost_def MethodPut_def MethodPatch_def MethodDelete_def)
  moreover have "trimETag ''v1'' \<noteq> ''v2''"
    by (simp add: trimETag_def HasPrefix_def Trim_def trimLeftByte_def trimRightByte_def dquote_def)
  ultimately have "snd (PreconditionFailed (\<lambda>t. []) (Resolve ''OPTIONS'' ?p) [] ''v2'' zeroTime)"
    by (simp add: PreconditionFailed_snd)
  with read
  have "fst (PreconditionFailed (\<lambda>t. []) (Resolve ''OPTIONS'' ?p) [] ''v2'' zeroTime) =
      [] @ [WriteHeader StatusNotModified]"
    by (rule mp)
  with one two show ?thesis
    by (intro conjI)
qed

text \<open>
  Claim C9. When the method returns true it has written the response itself: on a write,
  after the error details (at least one), its last call is
  \<^verbatim>\<open>WriteError(412, "Precondition Failed")\<close>, the call that writes the status with the
  error body; on a read its only call is \<^verbatim>\<open>WriteHeader(304)\<close>, which writes a status
  and no body. When it returns false it makes no call on the context.
\<close>

theorem C9_writes_the_response:
  "(snd (PreconditionFailed Format p ctx etag modified) \<and> isWrite p \<longrightarrow>
      (\<exists>es. es \<noteq> [] \<and>
         fst (PreconditionFailed Format p ctx etag modified) =
           ctx @ map AddError es @ [WriteError 412 ''Precondition Failed''])) \<and>
   (snd (PreconditionFailed Format p ctx etag modified) \<and> \<not> isWrite p \<longrightarrow>
      fst (PreconditionFailed Format p ctx etag modified) = ctx @ [WriteHeader 304]) \<and>
   (\<not> snd (PreconditionFailed Format p ctx etag modified) \<longrightarrow>
      fst (PreconditionFailed Format p ctx etag modified) = ctx)"
proof (intro conjI impI)
  assume a: "snd (PreconditionFailed Format p ctx etag modified) \<and> isWrite p"
  define es where "es =
      map (noneMatchError etag)
        (filter (\<lambda>m. trimETag m = etag \<or> (trimETag m = ''*'' \<and> etag \<noteq> '''')) (IfNoneMatch p)) @
      (if IfMatch p \<noteq> [] \<and> (\<forall>m\<in>set (IfMatch p). trimETag m \<noteq> etag)
       then [matchError p etag] else []) @
      (if \<not> IsZero (IfModifiedSince p) \<and> \<not> After modified (IfModifiedSince p)
       then [modifiedSinceError Format p modified] else []) @
      (if \<not> IsZero (IfUnmodifiedSince p) \<and> After modified (IfUnmodifiedSince p)
       then [unmodifiedSinceError Format p modified] else [])"
  from a have "es \<noteq> []"
    unfolding es_def PreconditionFailed_snd
    by (auto simp: filter_empty_conv)
  moreover from a have "fst (PreconditionFailed Format p ctx etag modified) =
      ctx @ map AddError es @ [WriteError 412 ''Precondition Failed'']"
    unfolding es_def
    by (subst PreconditionFailed_fst)
      (simp add: StatusText_def StatusPreconditionFailed_def StatusNotModified_def)
  ultimately show "\<exists>es. es \<noteq> [] \<and>
      fst (PreconditionFailed Format p ctx etag modified) =
        ctx @ map AddError es @ [WriteError 412 ''Precondition Failed'']"
    by blast
next
  assume "snd (PreconditionFailed Format p ctx etag modified) \<and> \<not> isWrite p"
  then show "fst (PreconditionFailed Format p ctx etag modified) = ctx @ [WriteHeader 304]"
    by (subst PreconditionFailed_fst) (simp add: StatusNotModified_def)
next
  assume "\<not> snd (PreconditionFailed Format p ctx etag modified)"
  then show "fst (PreconditionFailed Format p ctx etag modified) = ctx"
    by (simp add: PreconditionFailed_unchanged)
qed

theorem C9_writes_the_response_witness:
  "fst (PreconditionFailed (\<lambda>t. ''t'')
      \<lparr>IfMatch = [], IfNoneMatch = [''*''], IfModifiedSince = zeroTime,
       IfUnmodifiedSince = zeroTime, isWrite = False\<rparr> [] ''abc'' zeroTime) =
     [] @ [WriteHeader 304] \<and>
   (\<exists>es. es \<noteq> [] \<and>
      fst (PreconditionFailed (\<lambda>t. ''t'')
        \<lparr>IfMatch = [], IfNoneMatch = [''*''], IfModifiedSince = zeroTime,
         IfUnmodifiedSince = zeroTime, isWrite = True\<rparr> [] ''abc'' zeroTime) =
      [] @ map AddError es @ [WriteError 412 ''Precondition Failed'']) \<and>
   fst (PreconditionFailed (\<lambda>t. ''t'')
      \<lparr>IfMatch = [], IfNoneMatch = [''*''], IfModifiedSince = zeroTime,
       IfUnmodifiedSince = zeroTime, isWrite = True\<rparr> [] [] zeroTime) = []"
proof -
  let ?p = "\<lparr>IfMatch = [], IfNoneMatch = [''*''], IfModifiedSince = zeroTime,
       IfUnmodifiedSince = zeroTime, isWrite = False\<rparr>"
  let ?q = "\<lparr>IfMatch = [], IfNoneMatch = [''*''], IfModifiedSince = zeroTime,
       IfUnmodifiedSince = zeroTime, isWrite = True\<rparr>"
  have t: "trimETag ''*'' = ''*''"
    by (simp add: trimETag_def HasPrefix_def Trim_def trimLeftByte_def trimRightByte_def dquote_def)
  then have "snd (PreconditionFailed (\<lambda>t. ''t'') ?p [] ''abc'' zeroTime) \<and> \<not> isWrite ?p"
    by (simp add: PreconditionFailed_snd)
  with C9_writes_the_response [of "\<lambda>t. ''t''" ?p "[]" "''abc''" zeroTime]
  have one: "fst (PreconditionFailed (\<lambda>t. ''t'') ?p [] ''abc'' zeroTime) = [] @ [WriteHeader 304]"
    by blast
  from t have "snd (PreconditionFailed (\<lambda>t. ''t'') ?q [] ''abc'' zeroTime) \<and> isWrite ?q"
    by (simp add: PreconditionFailed_snd)
  with C9_writes_the_response [of "\<lambda>t. ''t''" ?q "[]" "''abc''" zeroTime]
  have two: "\<exists>es. es \<noteq> [] \<and>
      fst (PreconditionFailed (\<lambda>t. ''t'') ?q [] ''abc'' zeroTime) =
      [] @ map AddError es @ [WriteError 412 ''Precondition Failed'']"
    by blast
  from t have "\<not> snd (PreconditionFailed (\<lambda>t. ''t'') ?q [] [] zeroTime)"
    by (simp add: PreconditionFailed_snd IsZero_def zeroTime_def)
  with C9_writes_the_response [of "\<lambda>t. ''t''" ?q "[]" "[]" zeroTime]
  have "fst (PreconditionFailed (\<lambda>t. ''t'') ?q [] [] zeroTime) = []"
    by blast
  with one two show ?thesis
    by blast
qed

text \<open>
  Claim C10. A zero If-Modified-Since or If-Unmodified-Since time skips its block. With
  both times zero the modification time of the resource has no influence on the
  evaluation, and with both lists empty as well the method returns false and makes no
  call on the context. \<^verbatim>\<open>HasConditionalParams\<close> is true exactly when a list is not
  empty or a time is not zero; the zero value \<^verbatim>\<open>time.Time{}\<close> is zero.
\<close>

theorem C10_zero_time_is_no_header:
  "(IsZero (IfModifiedSince p) \<longrightarrow>
      ifModifiedSinceBlock Format p modified (ctx, failed) = (ctx, failed)) \<and>
   (IsZero (IfUnmodifiedSince p) \<longrightarrow>
      ifUnmodifiedSinceBlock Format p modified (ctx, failed) = (ctx, failed)) \<and>
   (IsZero (IfModifiedSince p) \<and> IsZero (IfUnmodifiedSince p) \<longrightarrow>
      PreconditionFailed Format p ctx etag modified = PreconditionFailed Format p ctx etag modified') \<and>
   (IfMatch p = [] \<and> IfNoneMatch p = [] \<and>
    IsZero (IfModifiedSince p) \<and> IsZero (IfUnmodifiedSince p) \<longrightarrow>
      PreconditionFailed Format p ctx etag modified = (ctx, False)) \<and>
   (HasConditionalParams p \<longleftrightarrow>
      IfMatch p \<noteq> [] \<or> IfNoneMatch p \<noteq> [] \<or>
      \<not> IsZero (IfModifiedSince p) \<or> \<not> IsZero (IfUnmodifiedSince p)) \<and>
   IsZero zeroTime"
proof (intro conjI impI)
  assume "IsZero (IfModifiedSince p)"
  then show "ifModifiedSinceBlock Format p modified (ctx, failed) = (ctx, failed)"
    by (simp add: ifModifiedSinceBlock_def)
next
  assume "IsZero (IfUnmodifiedSince p)"
  then show "ifUnmodifiedSinceBlock Format p modified (ctx, failed) = (ctx, failed)"
    by (simp add: ifUnmodifiedSinceBlock_def)
next
  assume "IsZero (IfModifiedSince p) \<and> IsZero (IfUnmodifiedSince p)"
  then show "PreconditionFailed Format p ctx etag modified =
      PreconditionFailed Format p ctx etag modified'"
    by (simp add: PreconditionFailed_def ifModifiedSinceBlock_def ifUnmodifiedSinceBlock_def
        split: prod.splits)
next
  assume "IfMatch p = [] \<and> IfNoneMatch p = [] \<and>
    IsZero (IfModifiedSince p) \<and> IsZero (IfUnmodifiedSince p)"
  then have "\<not> snd (PreconditionFailed Format p ctx etag modified)"
    by (simp add: PreconditionFailed_snd)
  then show "PreconditionFailed Format p ctx etag modified = (ctx, False)"
    by (rule PreconditionFailed_unchanged)
next
  show "HasConditionalParams p \<longleftrightarrow>
      IfMatch p \<noteq> [] \<or> IfNoneMatch p \<noteq> [] \<or>
      \<not> IsZero (IfModifiedSince p) \<or> \<not> IsZero (IfUnmodifiedSince p)"
    by (simp add: HasConditionalParams_def)
next
  show "IsZero zeroTime"
    by (rule IsZero_zeroTime)
qed

theorem C10_zero_time_is_no_header_witness:
  "ifModifiedSinceBlock (\<lambda>t. ''t'')
      \<lparr>IfMatch = [], IfNoneMatch = [], IfModifiedSince = zeroTime,
       IfUnmodifiedSince = zeroTime, isWrite = True\<rparr>
      \<lparr>sec = 63839750400, nsec = 0, loc = ''UTC''\<rparr> ([], False) = ([], False) \<and>
   ifUnmodifiedSinceBlock (\<lambda>t. ''t'')
      \<lparr>IfMatch = [], IfNoneMatch = [], IfModifiedSince = zeroTime,
       IfUnmodifiedSince = zeroTime, isWrite = True\<rparr>
      \<lparr>sec = 63839750400, nsec = 0, loc = ''UTC''\<rparr> ([], False) = ([], False) \<and>
   PreconditionFailed (\<lambda>t. ''t'')
      \<lparr>IfMatch = [], IfNoneMatch = [], IfModifiedSince = zeroTime,
       IfUnmodifiedSince = zeroTime, isWrite = True\<rparr>
      [] ''abc'' \<lparr>sec = 63839750400, nsec = 0, loc = ''UTC''\<rparr> = ([], False) \<and>
   \<not> HasConditionalParams
      \<lparr>IfMatch = [], IfNoneMatch = [], IfModifiedSince = zeroTime,
       IfUnmodifiedSince = zeroTime, isWrite = True\<rparr>"
proof -
  let ?p = "\<lparr>IfMatch = [], IfNoneMatch = [], IfModifiedSince = zeroTime,
       IfUnmodifiedSince = zeroTime, isWrite = True\<rparr>"
  let ?t = "\<lparr>sec = 63839750400, nsec = 0, loc = ''UTC''\<rparr>"
  note inst = C10_zero_time_is_no_header [of ?p "\<lambda>t. ''t''" ?t "[]" False "''abc''" zeroTime]
  from inst have z: "IsZero zeroTime"
    by blast
  then have h1: "IsZero (IfModifiedSince ?p)" and h2: "IsZero (IfUnmodifiedSince ?p)"
    and h3: "IfMatch ?p = [] \<and> IfNoneMatch ?p = [] \<and>
      IsZero (IfModifiedSince ?p) \<and> IsZero (IfUnmodifiedSince ?p)"
    by simp_all
  from inst h1 have one: "ifModifiedSinceBlock (\<lambda>t. ''t'') ?p ?t ([], False) = ([], False)"
    by blast
  from inst h2 have two: "ifUnmodifiedSinceBlock (\<lambda>t. ''t'') ?p ?t ([], False) = ([], False)"
    by blast
  from inst h3 have three: "PreconditionFailed (\<lambda>t. ''t'') ?p [] ''abc'' ?t = ([], False)"
    by blast
  from z have "\<not> (IfMatch ?p \<noteq> [] \<or> IfNoneMatch ?p \<noteq> [] \<or>
      \<not> IsZero (IfModifiedSince ?p) \<or> \<not> IsZero (IfUnmodifiedSince ?p))"
    by simp
  with inst have "\<not> HasConditionalParams ?p"
    by blast
  with one two three show ?thesis
    by blast
qed

end
